theory Spec2Isabelle
  imports Main
begin

text \<open>
  A model of \<open>backend/src/server.c\<close>, the web server of the repository: the response
  serialiser \<open>send_response\<close>, the responders \<open>resp_404\<close> and \<open>resp_file\<close>, the
  handlers of GET and POST, the request router \<open>handle_http_request\<close> and the accept
  loop of \<open>main\<close>. Every function of the source is a function of the same name on an
  explicit state; what the C library and the other modules of the repository return is a
  parameter. The properties of the specification follow the model.
\<close>

section \<open>C strings, buffers and the formatting functions of the C library\<close>

text \<open>
  A \<open>char *\<close> argument is modelled by the bytes of the object it points into, from the
  pointer to the end of that object. Reading it as a string stops at the first NUL; an
  object that holds no NUL makes the read run past its end, which is a fault of the model
  (\<open>None\<close>) instead of an unspecified value.
\<close>

abbreviation NUL :: char where
  "NUL \<equiv> CHR 0x00"

definition c_str :: "string \<Rightarrow> string option" where
  "c_str m = (if NUL \<in> set m then Some (takeWhile (\<lambda>c. c \<noteq> NUL) m) else None)"

text \<open>A string literal of the source: its characters and the terminator.\<close>

definition lit :: "string \<Rightarrow> string" where
  "lit s = s @ [NUL]"

text \<open>\<open>isspace\<close> in the C locale: space, \<open>\t\<close>, \<open>\n\<close>, \<open>\v\<close>, \<open>\f\<close>, \<open>\r\<close>.\<close>

definition isspace :: "char \<Rightarrow> bool" where
  "isspace c = (c \<in> set [CHR 0x20, CHR 0x09, CHR 0x0A, CHR 0x0B, CHR 0x0C, CHR 0x0D])"

text \<open>\<open>strlen\<close> of a buffer that \<open>snprintf\<close> has terminated.\<close>

definition strlen :: "string \<Rightarrow> nat" where
  "strlen m = length (takeWhile (\<lambda>c. c \<noteq> NUL) m)"

text \<open>
  \<open>strcmp\<close>: bytes are compared as \<open>unsigned char\<close> until they differ or both are NUL.
  Running off the end of either object before that is a fault.
\<close>

fun strcmp :: "string \<Rightarrow> string \<Rightarrow> int option" where
  "strcmp (a # as) (b # bs) =
     (if a = b then (if a = NUL then Some 0 else strcmp as bs)
      else Some (int (of_char a) - int (of_char b)))"
| "strcmp _ _ = None"

text \<open>The decimal digits that \<open>%d\<close> prints.\<close>

fun digits :: "nat \<Rightarrow> string" where
  "digits n = (if n < 10 then [''0123456789'' ! n]
               else digits (n div 10) @ [''0123456789'' ! (n mod 10)])"

declare digits.simps [simp del]

definition dec :: "int \<Rightarrow> string" where
  "dec i = (if i < 0 then CHR ''-'' # digits (nat (- i)) else digits (nat i))"

datatype arg = StrArg string | IntArg int

definition conv :: "char \<Rightarrow> arg \<Rightarrow> string option" where
  "conv d a =
     (if d = CHR ''s'' then (case a of StrArg m \<Rightarrow> c_str m | IntArg _ \<Rightarrow> None)
      else if d = CHR ''d'' then (case a of IntArg i \<Rightarrow> Some (dec i) | StrArg _ \<Rightarrow> None)
      else None)"

text \<open>
  The output of the \<open>printf\<close> family for the conversions the source uses (\<open>%s\<close> and \<open>%d\<close>,
  without flags or widths). A conversion without a matching argument is a fault.
\<close>

fun format :: "string \<Rightarrow> arg list \<Rightarrow> string option" where
  "format [] args = Some []"
| "format (c # fmt) args =
     (if c = CHR ''%'' then
        (case fmt of
           [] \<Rightarrow> None
         | d # fmt' \<Rightarrow>
            (case args of
               [] \<Rightarrow> None
             | a # args' \<Rightarrow>
                (case conv d a of
                   None \<Rightarrow> None
                 | Some s \<Rightarrow> map_option (\<lambda>r. s @ r) (format fmt' args'))))
      else map_option (\<lambda>r. c # r) (format fmt args))"

text \<open>
  \<open>snprintf(buf, n, fmt, ...)\<close>: at most \<open>n - 1\<close> characters of the output are
  stored, followed by the terminator. The result is the contents of the buffer up to and
  including that terminator.
\<close>

definition snprintf :: "nat \<Rightarrow> string \<Rightarrow> arg list \<Rightarrow> string option" where
  "snprintf n fmt args = map_option (\<lambda>s. take (n - 1) s @ [NUL]) (format fmt args)"

text \<open>
  \<open>sscanf\<close> on an input string, for formats made of white space, ordinary characters and
  \<open>%s\<close> without a width. Each destination is the capacity of the array and its contents
  before the call. \<open>%s\<close> skips white space, takes the longest run of characters that are
  not white space and stores it with a terminator: it has no width, so a run that does not
  fit the array is written past its end, which is a fault (\<open>None\<close>). The result is the
  return value (\<open>-1\<close> for \<open>EOF\<close>) and the contents of the destinations after the call.
\<close>

fun sscanf_from :: "string \<Rightarrow> string \<Rightarrow> (nat \<times> string) list \<Rightarrow> int \<Rightarrow> string list
    \<Rightarrow> (int \<times> string list) option" where
  "sscanf_from [] inp dests n out = Some (n, out @ map snd dests)"
| "sscanf_from (c # fmt) inp dests n out =
     (if isspace c then sscanf_from fmt (dropWhile isspace inp) dests n out
      else if c = CHR ''%'' then
        (case fmt of
           [] \<Rightarrow> None
         | d # fmt' \<Rightarrow>
            if d \<noteq> CHR ''s'' then None
            else
              (let inp' = dropWhile isspace inp;
                   tok = takeWhile (\<lambda>x. \<not> isspace x) inp'
               in if tok = [] then Some (if n = 0 then - 1 else n, out @ map snd dests)
                  else
                    (case dests of
                       [] \<Rightarrow> None
                     | (cap, buf) # ds \<Rightarrow>
                        if cap < length tok + 1 then None
                        else sscanf_from fmt' (drop (length tok) inp') ds (n + 1)
                               (out @ [tok @ [NUL] @ drop (length tok + 1) buf]))))
      else
        (case inp of
           [] \<Rightarrow> Some (if n = 0 then - 1 else n, out @ map snd dests)
         | x # inp' \<Rightarrow>
            if x = c then sscanf_from fmt inp' dests n out
            else Some (n, out @ map snd dests)))"

definition sscanf :: "string \<Rightarrow> string \<Rightarrow> (nat \<times> string) list \<Rightarrow> (int \<times> string list) option" where
  "sscanf str fmt dests =
     (case c_str str of None \<Rightarrow> None | Some s \<Rightarrow> sscanf_from fmt s dests 0 [])"

section \<open>The process and what surrounds it\<close>

text \<open>
  \<open>file.h\<close>, \<open>mime.h\<close>, \<open>cache.h\<close> and \<open>net.h\<close> are not part of the sources: what their
  functions return is a parameter of the model. \<open>data\<close> is the memory at
  \<open>filedata->data\<close>, the bytes of the file and what follows them in the same object, and
  \<open>size_f\<close> is \<open>filedata->size\<close>.
\<close>

record file_data =
  data :: string
  size_f :: int

text \<open>
  Everything one iteration of the accept loop receives from outside: the result of
  \<open>accept\<close>, the peer's address as \<open>inet_ntop\<close> stored it, the bytes the peer delivers
  (\<open>None\<close> when \<open>recv\<close> fails), the indeterminate contents of the local arrays
  \<open>request\<close>, \<open>type\<close> and \<open>path\<close> before anything is stored in them, the file loader, the
  MIME table, the string \<open>asctime(localtime(&rawtime))\<close> and the return value of \<open>send\<close>.
\<close>

record env =
  accept_result :: int
  peer_name :: string
  recv_result :: "string option"
  request0 :: string
  type0 :: string
  path0 :: string
  file_load :: "string \<Rightarrow> file_data option"
  mime_type_get :: "string \<Rightarrow> string"
  asctime_localtime :: string
  send_result :: "string \<Rightarrow> int"

text \<open>What the process does to the outside, in order.\<close>

datatype event =
    CacheCreate int int
  | Listen string
  | Accept int
  | Recv int nat
  | Send int string
  | Close int
  | FileLoad string
  | FileFree
  | Stdout string
  | Stderr string
  | Perror string

text \<open>
  The state of the process: the events so far and the cache objects on the heap. A
  \<open>struct cache *\<close> is the index of its object in \<open>caches\<close>.
\<close>

record 'c world =
  trace :: "event list"
  caches :: "'c list"

definition emit :: "event \<Rightarrow> 'c world \<Rightarrow> 'c world" where
  "emit ev w = w\<lparr>trace := trace w @ [ev]\<rparr>"

text \<open>How a call ends: it returns, the process exits, or the behaviour is undefined.\<close>

datatype 'a outcome = Return 'a | Exit int | Fault

definition printf :: "string \<Rightarrow> arg list \<Rightarrow> 'c world \<Rightarrow> unit outcome \<times> 'c world" where
  "printf fmt args w =
     (case format fmt args of
        None \<Rightarrow> (Fault, w)
      | Some s \<Rightarrow> (Return (), emit (Stdout s) w))"

definition fprintf_stderr :: "string \<Rightarrow> arg list \<Rightarrow> 'c world \<Rightarrow> unit outcome \<times> 'c world" where
  "fprintf_stderr fmt args w =
     (case format fmt args of
        None \<Rightarrow> (Fault, w)
      | Some s \<Rightarrow> (Return (), emit (Stderr s) w))"

text \<open>
  \<open>recv(fd, buf, len, 0)\<close>: \<open>-1\<close> on failure, otherwise at most \<open>len\<close> of the delivered
  bytes are stored at the start of the buffer and their number is returned.
\<close>

definition recv :: "env \<Rightarrow> nat \<Rightarrow> string \<Rightarrow> int \<times> string" where
  "recv e len buf =
     (case recv_result e of
        None \<Rightarrow> (- 1, buf)
      | Some bs \<Rightarrow> (let d = take len bs in (int (length d), d @ drop (length d) buf)))"

definition PORT :: string where
  "PORT = ''80''"

definition SERVER_FILES :: string where
  "SERVER_FILES = ''./serverfiles''"

definition SERVER_ROOT :: string where
  "SERVER_ROOT = ''./serverroot''"

section \<open>server.c\<close>

definition send_response ::
    "env \<Rightarrow> int \<Rightarrow> string \<Rightarrow> string \<Rightarrow> string \<Rightarrow> int \<Rightarrow> 'c world \<Rightarrow> int outcome \<times> 'c world" where
  "send_response e fd header content_type body content_length w =
     (let max_response_size = 262144;
          date = asctime_localtime e
      in case snprintf max_response_size
                ''%s\<newline>Date: %sConnection: close\<newline>Content-Length: %d\<newline>Content-Type: %s\<newline>\<newline>%s''
                [StrArg header, StrArg date, IntArg content_length, StrArg content_type, StrArg body] of
           None \<Rightarrow> (Fault, w)
         | Some response \<Rightarrow>
            (let response_length = strlen response;
                 sent = take response_length response;
                 rv = send_result e sent;
                 w1 = emit (Send fd sent) w
             in if rv < 0 then (Return rv, emit (Perror ''send'') w1)
                else (Return rv, w1)))"

definition resp_404 :: "env \<Rightarrow> int \<Rightarrow> 'c world \<Rightarrow> unit outcome \<times> 'c world" where
  "resp_404 e fd w =
     (case snprintf 4096 ''%s/404.html'' [StrArg (lit SERVER_FILES)] of
        None \<Rightarrow> (Fault, w)
      | Some filepath \<Rightarrow>
         (let name = takeWhile (\<lambda>c. c \<noteq> NUL) filepath;
              w1 = emit (FileLoad name) w
          in case file_load e name of
               None \<Rightarrow>
                (case fprintf_stderr ''cannot find system 404 file\<newline>'' [] w1 of
                   (Return _, w2) \<Rightarrow> (Exit 3, w2)
                 | (Exit c, w2) \<Rightarrow> (Exit c, w2)
                 | (Fault, w2) \<Rightarrow> (Fault, w2))
             | Some filedata \<Rightarrow>
                (let mime_type = mime_type_get e name in
                 case send_response e fd (lit ''HTTP/1.1 404 NOT FOUND'') mime_type
                        (data filedata) (size_f filedata) w1 of
                   (Return _, w2) \<Rightarrow> (Return (), emit FileFree w2)
                 | (Exit c, w2) \<Rightarrow> (Exit c, w2)
                 | (Fault, w2) \<Rightarrow> (Fault, w2))))"

definition resp_file :: "env \<Rightarrow> int \<Rightarrow> nat \<Rightarrow> string \<Rightarrow> 'c world \<Rightarrow> unit outcome \<times> 'c world" where
  "resp_file e fd cache request_path w =
     (case snprintf 4096 ''%s%s'' [StrArg (lit SERVER_ROOT), StrArg request_path] of
        None \<Rightarrow> (Fault, w)
      | Some filepath \<Rightarrow>
         (let name = takeWhile (\<lambda>c. c \<noteq> NUL) filepath;
              w1 = emit (FileLoad name) w
          in case file_load e name of
               None \<Rightarrow>
                (case fprintf_stderr ''cannot find system %s file\<newline>'' [StrArg request_path] w1 of
                   (Return _, w2) \<Rightarrow> (Exit 3, w2)
                 | (Exit c, w2) \<Rightarrow> (Exit c, w2)
                 | (Fault, w2) \<Rightarrow> (Fault, w2))
             | Some filedata \<Rightarrow>
                (let mime_type = mime_type_get e name in
                 case send_response e fd (lit ''HTTP/1.1 200 OK'') mime_type
                        (data filedata) (size_f filedata) w1 of
                   (Return _, w2) \<Rightarrow> (Return (), emit FileFree w2)
                 | (Exit c, w2) \<Rightarrow> (Exit c, w2)
                 | (Fault, w2) \<Rightarrow> (Fault, w2))))"

definition handle_get_request ::
    "env \<Rightarrow> int \<Rightarrow> nat \<Rightarrow> string \<Rightarrow> string \<Rightarrow> 'c world \<Rightarrow> unit outcome \<times> 'c world" where
  "handle_get_request e fd cache path request w =
     (case printf ''GET: %s'' [StrArg path] w of
        (Return _, w1) \<Rightarrow>
          (let prof = replicate 100 NUL in
           case sscanf path ''/profile/%s'' [(100, prof)] of
             None \<Rightarrow> (Fault, w1)
           | Some (n, _) \<Rightarrow>
              if n = 1 then resp_file e fd cache (lit ''/profile.html'') w1
              else resp_file e fd cache (lit ''/index.html'') w1)
      | (Exit c, w1) \<Rightarrow> (Exit c, w1)
      | (Fault, w1) \<Rightarrow> (Fault, w1))"

definition handle_post_request ::
    "env \<Rightarrow> int \<Rightarrow> nat \<Rightarrow> string \<Rightarrow> string \<Rightarrow> 'c world \<Rightarrow> unit outcome \<times> 'c world" where
  "handle_post_request e fd cache path request w =
     (case printf ''POST: %s'' [StrArg request] w of
        (Return _, w1) \<Rightarrow> resp_404 e fd w1
      | (Exit c, w1) \<Rightarrow> (Exit c, w1)
      | (Fault, w1) \<Rightarrow> (Fault, w1))"

definition handle_http_request :: "env \<Rightarrow> int \<Rightarrow> nat \<Rightarrow> 'c world \<Rightarrow> unit outcome \<times> 'c world" where
  "handle_http_request e fd cache w =
     (let request_buffer_size = 65536;
          w1 = emit (Recv fd (request_buffer_size - 1)) w;
          (bytes_recvd, request) = recv e (request_buffer_size - 1) (request0 e)
      in if bytes_recvd < 0 then (Return (), emit (Perror ''recv'') w1)
         else
           (case sscanf request ''%s %s'' [(10, type0 e), (107, path0 e)] of
              Some (_, [type, path]) \<Rightarrow>
                (case strcmp type (lit ''GET'') of
                   None \<Rightarrow> (Fault, w1)
                 | Some c \<Rightarrow>
                    if c = 0 then handle_get_request e fd cache path request w1
                    else
                      (case strcmp type (lit ''POST'') of
                         None \<Rightarrow> (Fault, w1)
                       | Some c' \<Rightarrow>
                          if c' = 0 then handle_post_request e fd cache path request w1
                          else resp_404 e fd w1))
            | _ \<Rightarrow> (Fault, w1)))"

text \<open>
  What the caller of the model sees of \<open>main\<close>: still in the loop (blocked in \<open>accept\<close>),
  exited, or undefined.
\<close>

datatype status = Running | Exited int | Faulted

text \<open>
  The body of \<open>while(1)\<close>, once for each element of the list: the loop itself never ends,
  and the list is the part of its run that is observed.
\<close>

fun accept_loop :: "env list \<Rightarrow> int \<Rightarrow> nat \<Rightarrow> 'c world \<Rightarrow> status \<times> 'c world" where
  "accept_loop [] listenfd cache w = (Running, w)"
| "accept_loop (e # es) listenfd cache w =
     (let w1 = emit (Accept listenfd) w;
          newfd = accept_result e
      in if newfd = - 1 then accept_loop es listenfd cache (emit (Perror ''accept'') w1)
         else
           (case printf ''server: got connection from %s\<newline>'' [StrArg (peer_name e)] w1 of
              (Return _, w2) \<Rightarrow>
                (case handle_http_request e newfd cache w2 of
                   (Return _, w3) \<Rightarrow> accept_loop es listenfd cache (emit (Close newfd) w3)
                 | (Exit c, w3) \<Rightarrow> (Exited c, w3)
                 | (Fault, w3) \<Rightarrow> (Faulted, w3))
            | (Exit c, w2) \<Rightarrow> (Exited c, w2)
            | (Fault, w2) \<Rightarrow> (Faulted, w2)))"

text \<open>
  \<open>cache_create\<close> and \<open>get_listener_socket\<close> are declared in \<open>cache.h\<close> and \<open>net.h\<close>:
  the cache object the first makes and the descriptor the second returns are parameters.
\<close>

record 'c boot =
  new_cache :: "int \<Rightarrow> int \<Rightarrow> 'c"
  listener_socket :: "string \<Rightarrow> int"

definition cache_create :: "'c boot \<Rightarrow> int \<Rightarrow> int \<Rightarrow> 'c world \<Rightarrow> nat \<times> 'c world" where
  "cache_create b max_size hashsize w =
     (length (caches w),
      emit (CacheCreate max_size hashsize) (w\<lparr>caches := caches w @ [new_cache b max_size hashsize]\<rparr>))"

definition main :: "'c boot \<Rightarrow> env list \<Rightarrow> status \<times> 'c world" where
  "main b es =
     (let w0 = \<lparr>trace = [], caches = []\<rparr>;
          (cache, w1) = cache_create b 10 0 w0;
          listenfd = listener_socket b PORT;
          w2 = emit (Listen PORT) w1
      in if listenfd < 0 then
           (case fprintf_stderr ''webserver: fatal error getting listening socket\<newline>'' [] w2 of
              (Return _, w3) \<Rightarrow> (Exited 1, w3)
            | (Exit c, w3) \<Rightarrow> (Exited c, w3)
            | (Fault, w3) \<Rightarrow> (Faulted, w3))
         else
           (case printf ''webserver: waiting for connections on port %s...\<newline>'' [StrArg (lit PORT)] w2 of
              (Return _, w3) \<Rightarrow> accept_loop es listenfd cache w3
            | (Exit c, w3) \<Rightarrow> (Exited c, w3)
            | (Fault, w3) \<Rightarrow> (Faulted, w3)))"

section \<open>Notions used to state the properties\<close>

text \<open>
  The events that the responders and the two method handlers can add to the trace: the
  file loader, \<open>send\<close> and its \<open>perror\<close>, and output on \<open>stdout\<close> and \<open>stderr\<close>.
\<close>

fun resp_event :: "event \<Rightarrow> bool" where
  "resp_event (FileLoad _) = True"
| "resp_event (Send _ _) = True"
| "resp_event FileFree = True"
| "resp_event (Stdout _) = True"
| "resp_event (Stderr _) = True"
| "resp_event (Perror s) = (s = ''send'')"
| "resp_event _ = False"

text \<open>
  A call is local when its result and the events it adds are the same in every state it is
  started in, and it changes nothing of the state but the trace.
\<close>

definition emits :: "(event \<Rightarrow> bool) \<Rightarrow> ('c world \<Rightarrow> 'a outcome \<times> 'c world) \<Rightarrow> bool" where
  "emits P f = (\<exists>r evs. list_all P evs \<and> (\<forall>w. f w = (r, w\<lparr>trace := trace w @ evs\<rparr>)))"

text \<open>
  The layout of a response in the words of the specification:
  \<open><status_line>\nDate: <date>Connection: close\nContent-Length: <n>\nContent-Type: <type>\n\n<body>\<close>.
\<close>

definition spec_layout :: "string \<Rightarrow> string \<Rightarrow> int \<Rightarrow> string \<Rightarrow> string \<Rightarrow> string" where
  "spec_layout status_line date n type body =
     status_line @ ''\<newline>Date: '' @ date @ ''Connection: close\<newline>Content-Length: '' @ dec n @
     ''\<newline>Content-Type: '' @ type @ ''\<newline>\<newline>'' @ body"

text \<open>Kinds of events.\<close>

fun is_recv :: "event \<Rightarrow> bool" where
  "is_recv (Recv _ _) = True"
| "is_recv _ = False"

fun is_cache_create :: "event \<Rightarrow> bool" where
  "is_cache_create (CacheCreate _ _) = True"
| "is_cache_create _ = False"


text \<open>
  The tokens of the specification: the first white-space-delimited token of a string and
  what follows that token. The method of a request is its first token and the path is its
  second.
\<close>

definition spec_token :: "string \<Rightarrow> string" where
  "spec_token s = takeWhile (\<lambda>c. \<not> isspace c) (dropWhile isspace s)"

definition spec_after_token :: "string \<Rightarrow> string" where
  "spec_after_token s = drop (length (spec_token s)) (dropWhile isspace s)"

text \<open>A small installation and one connection to it, for running the model.\<close>

definition test_files :: "string \<Rightarrow> file_data option" where
  "test_files name =
     (if name = ''./serverroot/index.html'' then Some \<lparr>data = lit ''<h1>hi</h1>'', size_f = 11\<rparr>
      else if name = ''./serverroot/profile.html'' then Some \<lparr>data = lit ''<p>me</p>'', size_f = 9\<rparr>
      else if name = ''./serverfiles/404.html'' then Some \<lparr>data = lit ''gone'', size_f = 4\<rparr>
      else None)"

definition test_env :: "(string \<Rightarrow> file_data option) \<Rightarrow> string option \<Rightarrow> env" where
  "test_env files received =
     \<lparr>accept_result = 4, peer_name = lit ''127.0.0.1'', recv_result = received,
      request0 = replicate 65536 NUL, type0 = replicate 10 NUL, path0 = replicate 107 NUL,
      file_load = files, mime_type_get = (\<lambda>_. lit ''text/html''),
      asctime_localtime = lit ''Fri Oct 30 01:05:00 2026\<newline>'',
      send_result = (\<lambda>s. int (length s))\<rparr>"

definition test_world :: "unit world" where
  "test_world = \<lparr>trace = [], caches = []\<rparr>"

text \<open>
  A connection on which \<open>recv\<close> returns 0 while the array \<open>request\<close> still holds an
  earlier request, and an installation whose \<open>index.html\<close> is the three bytes
  \<open>a\<close>, NUL, \<open>b\<close>.
\<close>

definition stale_env :: env where
  "stale_env = (test_env test_files (Some []))\<lparr>request0 := ''GET / HTTP/1.1'' @ replicate 65522 NUL\<rparr>"

definition nul_files :: "string \<Rightarrow> file_data option" where
  "nul_files name =
     (if name = ''./serverroot/index.html'' then Some \<lparr>data = [CHR ''a'', NUL, CHR ''b''], size_f = 3\<rparr>
      else None)"

text \<open>
  Requests and installations that the routes do not cover: a path of 107 characters, an
  installation without files, one whose files are not followed by a NUL, a connection that
  delivers six blanks while \<open>type\<close> and \<open>path\<close> still hold an earlier request, and one
  that delivers \<open>GET\<close> alone while \<open>path\<close> holds an earlier path.
\<close>

definition long_path :: string where
  "long_path = CHR ''/'' # replicate 106 (CHR ''a'')"

definition bare_files :: "string \<Rightarrow> file_data option" where
  "bare_files name =
     (if name = ''./serverroot/index.html'' then Some \<lparr>data = ''<h1>hi</h1>'', size_f = 11\<rparr>
      else if name = ''./serverroot/profile.html'' then Some \<lparr>data = ''<p>me</p>'', size_f = 9\<rparr>
      else if name = ''./serverfiles/404.html'' then Some \<lparr>data = ''gone'', size_f = 4\<rparr>
      else None)"

definition blank_env :: env where
  "blank_env = (test_env test_files (Some ''      ''))
     \<lparr>type0 := ''GET'' @ NUL # replicate 6 NUL, path0 := ''/profile/x'' @ NUL # replicate 96 NUL\<rparr>"

definition no_files :: "string \<Rightarrow> file_data option" where
  "no_files name = None"


section \<open>C strings and formatting\<close>

lemma takeWhile_all: "NUL \<notin> set s \<Longrightarrow> takeWhile (\<lambda>c. c \<noteq> NUL) (s @ NUL # r) = s"
  by (induction s) auto

lemma c_str_no_nul: "c_str m = Some s \<Longrightarrow> NUL \<notin> set s"
  by (auto simp: c_str_def split: if_splits dest: set_takeWhileD)

lemma c_str_lit: "NUL \<notin> set s \<Longrightarrow> c_str (lit s) = Some s"
  by (simp add: c_str_def lit_def takeWhile_all)

lemma digits_no_nul: "NUL \<notin> set (digits n)"
proof (induction n rule: digits.induct)
  case (1 n)
  have d: "''0123456789'' ! k \<noteq> NUL" if "k < 10" for k
  proof -
    have "''0123456789'' ! k \<in> set ''0123456789''" using that by (intro nth_mem) simp
    then show ?thesis by auto
  qed
  show ?case
  proof (cases "n < 10")
    case True
    then show ?thesis using d [of n] by (subst digits.simps) simp
  next
    case False
    then show ?thesis using 1 d [of "n mod 10"] by (subst digits.simps) simp
  qed
qed

lemma dec_no_nul: "NUL \<notin> set (dec i)"
  by (simp add: dec_def digits_no_nul)

section \<open>Calls are local\<close>

lemma emitsI:
  "(\<And>w. f w = (r, w\<lparr>trace := trace w @ evs\<rparr>)) \<Longrightarrow> list_all P evs \<Longrightarrow> emits P f"
  unfolding emits_def by blast

lemma printf_emits: "emits resp_event (printf fmt args :: 'c world \<Rightarrow> _)"
proof (cases "format fmt args")
  case None
  show ?thesis by (rule emitsI [where r = Fault and evs = "[]"]) (simp_all add: printf_def None)
next
  case (Some s)
  show ?thesis
    by (rule emitsI [where r = "Return ()" and evs = "[Stdout s]"])
      (simp_all add: printf_def Some emit_def)
qed

lemma send_response_emits:
  "emits resp_event (send_response e fd header content_type body n :: 'c world \<Rightarrow> _)"
proof (cases "snprintf 262144
    ''%s\<newline>Date: %sConnection: close\<newline>Content-Length: %d\<newline>Content-Type: %s\<newline>\<newline>%s''
    [StrArg header, StrArg (asctime_localtime e), IntArg n, StrArg content_type, StrArg body]")
  case None
  show ?thesis
    by (rule emitsI [where r = Fault and evs = "[]"]) (simp_all add: send_response_def None)
next
  case (Some response)
  define sent where "sent = take (strlen response) response"
  show ?thesis
  proof (cases "send_result e sent < 0")
    case True
    show ?thesis
      by (rule emitsI [where r = "Return (send_result e sent)" and evs = "[Send fd sent, Perror ''send'']"])
        (simp_all add: send_response_def Some emit_def sent_def [symmetric] True)
  next
    case False
    show ?thesis
      by (rule emitsI [where r = "Return (send_result e sent)" and evs = "[Send fd sent]"])
        (simp_all add: send_response_def Some emit_def sent_def [symmetric] False)
  qed
qed

lemma emits_bind:
  assumes "emits P f" and "\<And>x. emits P (g x)"
  shows "emits P (\<lambda>w. case f w of (Return x, w1) \<Rightarrow> g x w1
                      | (Exit c, w1) \<Rightarrow> (Exit c, w1) | (Fault, w1) \<Rightarrow> (Fault, w1))"
proof -
  from assms(1) obtain r evs where f: "list_all P evs" "\<And>w. f w = (r, w\<lparr>trace := trace w @ evs\<rparr>)"
    unfolding emits_def by blast
  show ?thesis
  proof (cases r)
    case (Return x)
    from assms(2) [of x] obtain r' evs' where
      g: "list_all P evs'" "\<And>w. g x w = (r', w\<lparr>trace := trace w @ evs'\<rparr>)"
      unfolding emits_def by blast
    show ?thesis
      by (rule emitsI [where r = r' and evs = "evs @ evs'"]) (simp_all add: f g Return)
  next
    case (Exit c)
    show ?thesis by (rule emitsI [where r = "Exit c" and evs = evs]) (simp_all add: f Exit)
  next
    case Fault
    show ?thesis by (rule emitsI [where r = Fault and evs = evs]) (simp_all add: f Fault)
  qed
qed

lemma emits_emit:
  assumes "P ev" and "emits P f"
  shows "emits P (\<lambda>w. f (emit ev w))"
proof -
  from assms(2) obtain r evs where f: "list_all P evs" "\<And>w. f w = (r, w\<lparr>trace := trace w @ evs\<rparr>)"
    unfolding emits_def by blast
  show ?thesis
    by (rule emitsI [where r = r and evs = "ev # evs"]) (simp_all add: f assms(1) emit_def)
qed

lemma emits_const: "emits P (\<lambda>w. (r, w))"
  by (rule emitsI [where r = r and evs = "[]"]) simp_all

lemma emits_then_free:
  assumes "emits resp_event f"
  shows "emits resp_event (\<lambda>w. case f w of (Return x, w1) \<Rightarrow> (Return (), emit FileFree w1)
                      | (Exit c, w1) \<Rightarrow> (Exit c, w1) | (Fault, w1) \<Rightarrow> (Fault, w1))"
  using emits_bind [OF assms, of "\<lambda>x w. (Return (), emit FileFree w)"]
    emits_emit [where P = resp_event and ev = FileFree and f = "\<lambda>w. (Return (), w)"]
  by (simp add: emits_const)

section \<open>The two responders\<close>

lemma filepath_404:
  "snprintf 4096 ''%s/404.html'' [StrArg (lit SERVER_FILES)] = Some (lit ''./serverfiles/404.html'')"
  by (simp add: snprintf_def conv_def c_str_def lit_def SERVER_FILES_def)

lemma name_404: "takeWhile (\<lambda>c. c \<noteq> NUL) (lit ''./serverfiles/404.html'') = ''./serverfiles/404.html''"
  by (simp add: lit_def)

lemma resp_404_missing:
  assumes "file_load e ''./serverfiles/404.html'' = None"
  shows "resp_404 e fd w = (Exit 3, w\<lparr>trace := trace w @
     [FileLoad ''./serverfiles/404.html'', Stderr ''cannot find system 404 file\<newline>'']\<rparr>)"
  by (simp add: resp_404_def filepath_404 name_404 assms fprintf_stderr_def emit_def Let_def)

lemma resp_404_present:
  assumes "file_load e ''./serverfiles/404.html'' = Some filedata"
  shows "resp_404 e fd w =
    (case send_response e fd (lit ''HTTP/1.1 404 NOT FOUND'') (mime_type_get e ''./serverfiles/404.html'')
                        (data filedata) (size_f filedata) (emit (FileLoad ''./serverfiles/404.html'') w) of
                   (Return _, w2) \<Rightarrow> (Return (), emit FileFree w2)
                 | (Exit c, w2) \<Rightarrow> (Exit c, w2)
                 | (Fault, w2) \<Rightarrow> (Fault, w2))"
  by (simp add: resp_404_def filepath_404 name_404 assms Let_def)

lemma resp_404_emits: "emits resp_event (resp_404 e fd :: 'c world \<Rightarrow> _)"
proof (cases "file_load e ''./serverfiles/404.html''")
  case None
  show ?thesis
    by (rule emitsI [where r = "Exit 3" and evs = "[FileLoad ''./serverfiles/404.html'',
          Stderr ''cannot find system 404 file\<newline>'']"])
      (simp_all add: resp_404_missing [OF None])
next
  case (Some filedata)
  have eq: "resp_404 e fd = (\<lambda>w :: 'c world.
    (case send_response e fd (lit ''HTTP/1.1 404 NOT FOUND'') (mime_type_get e ''./serverfiles/404.html'')
                        (data filedata) (size_f filedata) (emit (FileLoad ''./serverfiles/404.html'') w) of
                   (Return _, w2) \<Rightarrow> (Return (), emit FileFree w2)
                 | (Exit c, w2) \<Rightarrow> (Exit c, w2)
                 | (Fault, w2) \<Rightarrow> (Fault, w2)))"
    by (rule ext) (rule resp_404_present [OF Some])
  show ?thesis
    unfolding eq
    by (rule emits_emit [where P = resp_event and ev = "FileLoad ''./serverfiles/404.html''",
          OF _ emits_then_free [OF send_response_emits]]) simp
qed

lemma SERVER_ROOT_no_nul: "NUL \<notin> set SERVER_ROOT"
  by (simp add: SERVER_ROOT_def)

lemma filepath_root:
  assumes "c_str request_path = Some p"
  shows "snprintf 4096 ''%s%s'' [StrArg (lit SERVER_ROOT), StrArg request_path] =
    Some (take 4095 (SERVER_ROOT @ p) @ [NUL])"
  using assms by (simp add: snprintf_def conv_def c_str_lit [OF SERVER_ROOT_no_nul])

lemma name_root:
  assumes "c_str request_path = Some p"
  shows "takeWhile (\<lambda>c. c \<noteq> NUL) (take 4095 (SERVER_ROOT @ p) @ [NUL]) =
    take 4095 (SERVER_ROOT @ p)"
proof -
  have "NUL \<notin> set (SERVER_ROOT @ p)" using c_str_no_nul [OF assms] SERVER_ROOT_no_nul by simp
  then have "NUL \<notin> set (take 4095 (SERVER_ROOT @ p))" by (meson in_set_takeD)
  then show ?thesis by (rule takeWhile_all)
qed

lemma resp_file_unterminated:
  assumes "c_str request_path = None"
  shows "resp_file e fd cache request_path w = (Fault, w)"
  using assms by (simp add: resp_file_def snprintf_def conv_def c_str_lit [OF SERVER_ROOT_no_nul])

lemma resp_file_missing:
  assumes "c_str request_path = Some p"
    and "file_load e (take 4095 (SERVER_ROOT @ p)) = None"
  shows "resp_file e fd cache request_path w = (Exit 3, w\<lparr>trace := trace w @
     [FileLoad (take 4095 (SERVER_ROOT @ p)),
      Stderr (''cannot find system '' @ p @ '' file\<newline>'')]\<rparr>)"
  by (simp add: resp_file_def filepath_root [OF assms(1)] name_root [OF assms(1)] assms
      fprintf_stderr_def emit_def Let_def conv_def del: take_append)

lemma resp_file_present:
  assumes "c_str request_path = Some p"
    and "file_load e (take 4095 (SERVER_ROOT @ p)) = Some filedata"
  shows "resp_file e fd cache request_path w =
    (case send_response e fd (lit ''HTTP/1.1 200 OK'')
            (mime_type_get e (take 4095 (SERVER_ROOT @ p)))
            (data filedata) (size_f filedata)
            (emit (FileLoad (take 4095 (SERVER_ROOT @ p))) w) of
       (Return _, w2) \<Rightarrow> (Return (), emit FileFree w2)
     | (Exit c, w2) \<Rightarrow> (Exit c, w2)
     | (Fault, w2) \<Rightarrow> (Fault, w2))"
  by (simp add: resp_file_def filepath_root [OF assms(1)] name_root [OF assms(1)] assms Let_def
      del: take_append)

lemma resp_file_emits: "emits resp_event (resp_file e fd cache request_path :: 'c world \<Rightarrow> _)"
proof (cases "c_str request_path")
  case None
  show ?thesis
    by (rule emitsI [where r = Fault and evs = "[]"]) (simp_all add: resp_file_unterminated [OF None])
next
  case (Some p)
  define name where "name = take 4095 (SERVER_ROOT @ p)"
  show ?thesis
  proof (cases "file_load e name")
    case None
    show ?thesis
      by (rule emitsI [where r = "Exit 3" and evs = "[FileLoad name,
            Stderr (''cannot find system '' @ p @ '' file\<newline>'')]"])
        (simp_all add: resp_file_missing [OF Some None [unfolded name_def]] name_def)
  next
    case present: (Some filedata)
    have eq: "resp_file e fd cache request_path = (\<lambda>w :: 'c world.
      (case send_response e fd (lit ''HTTP/1.1 200 OK'') (mime_type_get e name)
              (data filedata) (size_f filedata) (emit (FileLoad name) w) of
         (Return _, w2) \<Rightarrow> (Return (), emit FileFree w2)
       | (Exit c, w2) \<Rightarrow> (Exit c, w2)
       | (Fault, w2) \<Rightarrow> (Fault, w2)))"
      unfolding name_def by (rule ext) (rule resp_file_present [OF Some present [unfolded name_def]])
    show ?thesis
      unfolding eq
      by (rule emits_emit [where P = resp_event and ev = "FileLoad name",
            OF _ emits_then_free [OF send_response_emits]]) simp
  qed
qed

lemma handle_post_request_emits:
  "emits resp_event (handle_post_request e fd cache path request :: 'c world \<Rightarrow> _)"
proof -
  have eq: "handle_post_request e fd cache path request = (\<lambda>w :: 'c world.
     (case printf ''POST: %s'' [StrArg request] w of
        (Return x, w1) \<Rightarrow> resp_404 e fd w1
      | (Exit c, w1) \<Rightarrow> (Exit c, w1)
      | (Fault, w1) \<Rightarrow> (Fault, w1)))"
    by (rule ext) (simp add: handle_post_request_def)
  show ?thesis unfolding eq by (rule emits_bind [OF printf_emits resp_404_emits])
qed

lemma handle_get_request_emits:
  "emits resp_event (handle_get_request e fd cache path request :: 'c world \<Rightarrow> _)"
proof (cases "sscanf path ''/profile/%s'' [(100, replicate 100 NUL)]")
  case None
  have eq: "handle_get_request e fd cache path request = (\<lambda>w :: 'c world.
     (case printf ''GET: %s'' [StrArg path] w of
        (Return x, w1) \<Rightarrow> (Fault, w1)
      | (Exit c, w1) \<Rightarrow> (Exit c, w1)
      | (Fault, w1) \<Rightarrow> (Fault, w1)))"
    by (rule ext) (simp only: handle_get_request_def None Let_def option.case)
  show ?thesis unfolding eq by (rule emits_bind [OF printf_emits emits_const])
next
  case (Some a)
  obtain n bufs where a: "a = (n, bufs)" by (cases a)
  have eq: "handle_get_request e fd cache path request = (\<lambda>w :: 'c world.
     (case printf ''GET: %s'' [StrArg path] w of
        (Return x, w1) \<Rightarrow>
           resp_file e fd cache (if n = 1 then lit ''/profile.html'' else lit ''/index.html'') w1
      | (Exit c, w1) \<Rightarrow> (Exit c, w1)
      | (Fault, w1) \<Rightarrow> (Fault, w1)))"
    by (rule ext) (simp only: handle_get_request_def Some a Let_def option.case prod.case if_distrib [of "\<lambda>x. resp_file e fd cache x _"])
  show ?thesis unfolding eq by (rule emits_bind [OF printf_emits resp_file_emits])
qed

section \<open>The serialised response\<close>

lemma format_response:
  assumes "c_str header = Some h" and "c_str date = Some d"
    and "c_str content_type = Some t" and "c_str body = Some b"
  shows "format
      ''%s\<newline>Date: %sConnection: close\<newline>Content-Length: %d\<newline>Content-Type: %s\<newline>\<newline>%s''
      [StrArg header, StrArg date, IntArg n, StrArg content_type, StrArg body] =
    Some (spec_layout h d n t b)"
  using assms by (simp add: conv_def spec_layout_def)

lemma spec_layout_no_nul:
  assumes "c_str header = Some h" and "c_str date = Some d"
    and "c_str content_type = Some t" and "c_str body = Some b"
  shows "NUL \<notin> set (spec_layout h d n t b)"
  using assms [THEN c_str_no_nul] by (simp add: spec_layout_def dec_no_nul)

lemma send_response_sends:
  assumes "c_str header = Some h" and "c_str (asctime_localtime e) = Some d"
    and "c_str content_type = Some t" and "c_str body = Some b"
  shows "send_response e fd header content_type body n w =
    (Return (send_result e (take 262143 (spec_layout h d n t b))),
     if send_result e (take 262143 (spec_layout h d n t b)) < 0
     then w\<lparr>trace := trace w @ [Send fd (take 262143 (spec_layout h d n t b)), Perror ''send'']\<rparr>
     else w\<lparr>trace := trace w @ [Send fd (take 262143 (spec_layout h d n t b))]\<rparr>)"
proof -
  define resp where "resp = take 262143 (spec_layout h d n t b)"
  have nn: "NUL \<notin> set resp"
    using spec_layout_no_nul [OF assms, of n] unfolding resp_def by (meson in_set_takeD)
  have sn: "snprintf 262144
      ''%s\<newline>Date: %sConnection: close\<newline>Content-Length: %d\<newline>Content-Type: %s\<newline>\<newline>%s''
      [StrArg header, StrArg (asctime_localtime e), IntArg n, StrArg content_type, StrArg body] =
    Some (resp @ [NUL])"
    unfolding snprintf_def format_response [OF assms] resp_def by simp
  have tk: "take (strlen (resp @ [NUL])) (resp @ [NUL]) = resp"
    using nn by (simp add: strlen_def takeWhile_all)
  show ?thesis
    unfolding send_response_def Let_def sn option.case tk resp_def [symmetric]
    by (simp add: emit_def)
qed

section \<open>Token extraction and dispatch\<close>

lemma isspace_simps [simp]:
  "isspace (CHR '' '')" "\<not> isspace (CHR ''%'')" "\<not> isspace (CHR ''s'')"
  by (simp_all add: isspace_def)

lemma sscanf_from_two:
  "sscanf_from ''%s %s'' r [(c1, t0), (c2, p0)] 0 [] =
    (let r1 = dropWhile isspace r;
         m = takeWhile (\<lambda>x. \<not> isspace x) r1;
         r2 = dropWhile isspace (drop (length m) r1);
         p = takeWhile (\<lambda>x. \<not> isspace x) r2
     in if m = [] then Some (- 1, [t0, p0])
        else if c1 < length m + 1 then None
        else if p = [] then Some (1, [m @ NUL # drop (length m + 1) t0, p0])
        else if c2 < length p + 1 then None
        else Some (2, [m @ NUL # drop (length m + 1) t0, p @ NUL # drop (length p + 1) p0]))"
  by (simp add: Let_def)

lemma recv_failed: "recv_result e = None \<Longrightarrow> recv e len buf = (- 1, buf)"
  by (simp add: recv_def)

lemma recv_stored:
  "recv_result e = Some bs \<Longrightarrow>
   recv e len buf = (int (length (take len bs)), take len bs @ drop (length (take len bs)) buf)"
  by (simp add: recv_def Let_def)

lemma handle_http_request_recv_failed:
  assumes "recv_result e = None"
  shows "handle_http_request e fd cache w =
    (Return (), w\<lparr>trace := trace w @ [Recv fd 65535, Perror ''recv'']\<rparr>)"
  by (simp add: handle_http_request_def recv_failed [OF assms] emit_def)

lemma emits_if:
  "emits P f \<Longrightarrow> emits P g \<Longrightarrow> emits P (\<lambda>w. if c then f w else g w)"
  by (cases c) simp_all

lemma dispatch_emits:
  "emits resp_event (\<lambda>w1 :: 'c world.
     case scan of
       Some (_, [type, path]) \<Rightarrow>
         (case strcmp type (lit ''GET'') of
            None \<Rightarrow> (Fault, w1)
          | Some c \<Rightarrow>
             if c = 0 then handle_get_request e fd cache path request w1
             else
               (case strcmp type (lit ''POST'') of
                  None \<Rightarrow> (Fault, w1)
                | Some c' \<Rightarrow>
                   if c' = 0 then handle_post_request e fd cache path request w1
                   else resp_404 e fd w1))
     | _ \<Rightarrow> (Fault, w1))"
proof (cases scan)
  case None
  then show ?thesis by (simp add: emits_const)
next
  case (Some a)
  obtain n bufs where a: "a = (n, bufs)" by (cases a)
  show ?thesis
  proof (cases "\<exists>type path. bufs = [type, path]")
    case False
    then have "bufs = [] \<or> (\<exists>x. bufs = [x]) \<or> (\<exists>x y z zs. bufs = x # y # z # zs)"
      by (metis list.exhaust)
    then show ?thesis using Some a by (auto simp: emits_const)
  next
    case True
    then obtain type path where bufs: "bufs = [type, path]" by blast
    have post: "emits resp_event (\<lambda>w1 :: 'c world.
        case strcmp type (lit ''POST'') of
          None \<Rightarrow> (Fault, w1)
        | Some c' \<Rightarrow>
           if c' = 0 then handle_post_request e fd cache path request w1
           else resp_404 e fd w1)"
      by (cases "strcmp type (lit ''POST'')")
        (simp_all add: emits_const emits_if handle_post_request_emits resp_404_emits)
    show ?thesis
      using post
      by (cases "strcmp type (lit ''GET'')")
        (simp_all add: Some a bufs emits_const emits_if handle_get_request_emits)
  qed
qed

lemma handle_http_request_received:
  assumes "recv_result e = Some bs"
  shows "\<exists>r evs. list_all resp_event evs \<and>
    (\<forall>w :: 'c world. handle_http_request e fd cache w = (r, w\<lparr>trace := trace w @ Recv fd 65535 # evs\<rparr>))"
proof -
  define request where "request = take 65535 bs @ drop (length (take 65535 bs)) (request0 e)"
  define scan where "scan = sscanf request ''%s %s'' [(10, type0 e), (107, path0 e)]"
  define f where "f = (\<lambda>w1 :: 'c world.
     case scan of
       Some (_, [type, path]) \<Rightarrow>
         (case strcmp type (lit ''GET'') of
            None \<Rightarrow> (Fault, w1)
          | Some c \<Rightarrow>
             if c = 0 then handle_get_request e fd cache path request w1
             else
               (case strcmp type (lit ''POST'') of
                  None \<Rightarrow> (Fault, w1)
                | Some c' \<Rightarrow>
                   if c' = 0 then handle_post_request e fd cache path request w1
                   else resp_404 e fd w1))
     | _ \<Rightarrow> (Fault, w1))"
  have n: "(65536::nat) - 1 = 65535" by simp
  have h: "handle_http_request e fd cache w = f (emit (Recv fd 65535) w)" for w :: "'c world"
    unfolding handle_http_request_def Let_def n recv_stored [OF assms] prod.case
      f_def scan_def request_def
    by (simp only: of_nat_less_0_iff if_False)
  have "emits resp_event f" unfolding f_def by (rule dispatch_emits)
  then obtain r evs where f: "list_all resp_event evs" "\<And>w. f w = (r, w\<lparr>trace := trace w @ evs\<rparr>)"
    unfolding emits_def by blast
  have "handle_http_request e fd cache w = (r, w\<lparr>trace := trace w @ Recv fd 65535 # evs\<rparr>)"
    for w :: "'c world"
    by (simp add: h f emit_def)
  with f(1) show ?thesis by blast
qed

section \<open>The accept loop\<close>

lemma resp_event_not_recv: "resp_event ev \<Longrightarrow> \<not> is_recv ev"
  by (cases ev) simp_all

lemma resp_event_not_cache_create: "resp_event ev \<Longrightarrow> \<not> is_cache_create ev"
  by (cases ev) simp_all

lemma filter_none: "list_all P evs \<Longrightarrow> (\<And>ev. P ev \<Longrightarrow> \<not> Q ev) \<Longrightarrow> filter Q evs = []"
  by (induction evs) auto

lemma handle_http_request_local:
  "\<exists>r evs. list_all (\<lambda>ev. \<not> is_cache_create ev) evs \<and>
     (\<forall>w :: 'c world. handle_http_request e fd cache w = (r, w\<lparr>trace := trace w @ evs\<rparr>))"
proof (cases "recv_result e")
  case None
  have "list_all (\<lambda>ev. \<not> is_cache_create ev) [Recv fd 65535, Perror ''recv'']" by simp
  then show ?thesis using handle_http_request_recv_failed [OF None] by blast
next
  case (Some bs)
  from handle_http_request_received [OF Some, of fd cache]
  obtain r evs where h: "list_all resp_event evs"
    "\<And>w :: 'c world. handle_http_request e fd cache w = (r, w\<lparr>trace := trace w @ Recv fd 65535 # evs\<rparr>)"
    by blast
  have "list_all (\<lambda>ev. \<not> is_cache_create ev) (Recv fd 65535 # evs)"
    using h(1) by (auto simp: list_all_iff dest: resp_event_not_cache_create)
  with h(2) show ?thesis by blast
qed

lemma accept_loop_local:
  "\<exists>evs. list_all (\<lambda>ev. \<not> is_cache_create ev) evs \<and>
     snd (accept_loop es listenfd cache (w :: 'c world)) = w\<lparr>trace := trace w @ evs\<rparr>"
proof (induction es arbitrary: w)
  case Nil
  have "snd (accept_loop [] listenfd cache w) = w\<lparr>trace := trace w @ []\<rparr>" by simp
  moreover have "list_all (\<lambda>ev. \<not> is_cache_create ev) []" by simp
  ultimately show ?case by blast
next
  case (Cons e es)
  show ?case
  proof (cases "accept_result e = - 1")
    case True
    from Cons [of "emit (Perror ''accept'') (emit (Accept listenfd) w)"]
    obtain evs where evs: "list_all (\<lambda>ev. \<not> is_cache_create ev) evs"
      "snd (accept_loop es listenfd cache (emit (Perror ''accept'') (emit (Accept listenfd) w))) =
         w\<lparr>trace := trace w @ Accept listenfd # Perror ''accept'' # evs\<rparr>"
      by (auto simp: emit_def)
    have "snd (accept_loop (e # es) listenfd cache w) =
        w\<lparr>trace := trace w @ (Accept listenfd # Perror ''accept'' # evs)\<rparr>"
      using True evs(2) by (simp add: Let_def)
    moreover have "list_all (\<lambda>ev. \<not> is_cache_create ev) (Accept listenfd # Perror ''accept'' # evs)"
      using evs(1) by simp
    ultimately show ?thesis by blast
  next
    case False
    obtain r1 evs1 where p: "list_all resp_event evs1"
      "\<And>w :: 'c world. printf ''server: got connection from %s\<newline>'' [StrArg (peer_name e)] w =
          (r1, w\<lparr>trace := trace w @ evs1\<rparr>)"
      using printf_emits [of "''server: got connection from %s\<newline>''" "[StrArg (peer_name e)]"]
      unfolding emits_def by blast
    from handle_http_request_local [of e "accept_result e" cache]
    obtain r2 evs2 where h: "list_all (\<lambda>ev. \<not> is_cache_create ev) evs2"
      "\<And>w :: 'c world. handle_http_request e (accept_result e) cache w = (r2, w\<lparr>trace := trace w @ evs2\<rparr>)"
      by blast
    have p1: "list_all (\<lambda>ev. \<not> is_cache_create ev) evs1"
      using p(1) by (auto simp: list_all_iff dest: resp_event_not_cache_create)
    define w3 where "w3 = emit (Close (accept_result e))
        (w\<lparr>trace := trace w @ Accept listenfd # evs1 @ evs2\<rparr>)"
    from Cons [of w3] obtain evs where evs: "list_all (\<lambda>ev. \<not> is_cache_create ev) evs"
      "snd (accept_loop es listenfd cache w3) = w3\<lparr>trace := trace w3 @ evs\<rparr>"
      by blast
    show ?thesis
    proof (cases r1)
      case (Return u)
      show ?thesis
      proof (cases r2)
        case (Return u')
        have "snd (accept_loop (e # es) listenfd cache w) =
          w\<lparr>trace := trace w @ (Accept listenfd # evs1 @ evs2 @ Close (accept_result e) # evs)\<rparr>"
          using False \<open>r1 = Return u\<close> Return evs(2)
          by (simp add: Let_def p(2) h(2) emit_def w3_def)
        moreover have "list_all (\<lambda>ev. \<not> is_cache_create ev)
            (Accept listenfd # evs1 @ evs2 @ Close (accept_result e) # evs)"
          using p1 h(1) evs(1) by simp
        ultimately show ?thesis by blast
      next
        case (Exit c)
        have "snd (accept_loop (e # es) listenfd cache w) =
          w\<lparr>trace := trace w @ (Accept listenfd # evs1 @ evs2)\<rparr>"
          using False \<open>r1 = Return u\<close> Exit by (simp add: Let_def p(2) h(2) emit_def)
        moreover have "list_all (\<lambda>ev. \<not> is_cache_create ev) (Accept listenfd # evs1 @ evs2)"
          using p1 h(1) by simp
        ultimately show ?thesis by blast
      next
        case Fault
        have "snd (accept_loop (e # es) listenfd cache w) =
          w\<lparr>trace := trace w @ (Accept listenfd # evs1 @ evs2)\<rparr>"
          using False \<open>r1 = Return u\<close> Fault by (simp add: Let_def p(2) h(2) emit_def)
        moreover have "list_all (\<lambda>ev. \<not> is_cache_create ev) (Accept listenfd # evs1 @ evs2)"
          using p1 h(1) by simp
        ultimately show ?thesis by blast
      qed
    next
      case (Exit c)
      have "snd (accept_loop (e # es) listenfd cache w) =
          w\<lparr>trace := trace w @ (Accept listenfd # evs1)\<rparr>"
        using False Exit by (simp add: Let_def p(2) emit_def)
      moreover have "list_all (\<lambda>ev. \<not> is_cache_create ev) (Accept listenfd # evs1)"
        using p1 by simp
      ultimately show ?thesis by blast
    next
      case Fault
      have "snd (accept_loop (e # es) listenfd cache w) =
          w\<lparr>trace := trace w @ (Accept listenfd # evs1)\<rparr>"
        using False Fault by (simp add: Let_def p(2) emit_def)
      moreover have "list_all (\<lambda>ev. \<not> is_cache_create ev) (Accept listenfd # evs1)"
        using p1 by simp
      ultimately show ?thesis by blast
    qed
  qed
qed

section \<open>What the responders send\<close>

lemma c_str_lit_status [simp]:
  "c_str (lit ''HTTP/1.1 200 OK'') = Some ''HTTP/1.1 200 OK''"
  "c_str (lit ''HTTP/1.1 404 NOT FOUND'') = Some ''HTTP/1.1 404 NOT FOUND''"
  by (simp_all add: c_str_def lit_def)

lemma resp_404_sends:
  assumes "file_load e ''./serverfiles/404.html'' = Some filedata"
    and "c_str (data filedata) = Some b"
    and "c_str (mime_type_get e ''./serverfiles/404.html'') = Some t"
    and "c_str (asctime_localtime e) = Some d"
  shows "resp_404 e fd w =
    (let resp = take 262143 (spec_layout ''HTTP/1.1 404 NOT FOUND'' d (size_f filedata) t b)
     in (Return (), w\<lparr>trace := trace w @
           [FileLoad ''./serverfiles/404.html'', Send fd resp] @
           (if send_result e resp < 0 then [Perror ''send''] else []) @ [FileFree]\<rparr>))"
  unfolding resp_404_present [OF assms(1)]
    send_response_sends [OF c_str_lit_status(2) assms(4) assms(3) assms(2)]
  by (simp add: emit_def Let_def)









lemma printf_post:
  "c_str request = Some r \<Longrightarrow>
   printf ''POST: %s'' [StrArg request] w = (Return (), w\<lparr>trace := trace w @ [Stdout (''POST: '' @ r)]\<rparr>)"
  by (simp add: printf_def conv_def emit_def)

lemmas run_simps = handle_http_request_def handle_get_request_def handle_post_request_def
  resp_file_def resp_404_def send_response_def printf_def fprintf_stderr_def recv_def sscanf_def
  snprintf_def c_str_def conv_def lit_def strlen_def isspace_def emit_def Let_def
  test_env_def test_files_def test_world_def SERVER_ROOT_def SERVER_FILES_def dec_def digits.simps

section \<open>The method decides\<close>

lemma handle_http_request_dispatch:
  assumes "recv_result e = Some bs"
  shows "handle_http_request e fd cache w =
    (case sscanf (take 65535 bs @ drop (length (take 65535 bs)) (request0 e)) ''%s %s''
            [(10, type0 e), (107, path0 e)] of
       Some (_, [type, path]) \<Rightarrow>
         (case strcmp type (lit ''GET'') of
            None \<Rightarrow> (Fault, emit (Recv fd 65535) w)
          | Some c \<Rightarrow>
             if c = 0 then handle_get_request e fd cache path
                  (take 65535 bs @ drop (length (take 65535 bs)) (request0 e)) (emit (Recv fd 65535) w)
             else
               (case strcmp type (lit ''POST'') of
                  None \<Rightarrow> (Fault, emit (Recv fd 65535) w)
                | Some c' \<Rightarrow>
                   if c' = 0 then handle_post_request e fd cache path
                        (take 65535 bs @ drop (length (take 65535 bs)) (request0 e)) (emit (Recv fd 65535) w)
                   else resp_404 e fd (emit (Recv fd 65535) w)))
     | _ \<Rightarrow> (Fault, emit (Recv fd 65535) w))"
proof -
  have n: "(65536::nat) - 1 = 65535" by simp
  show ?thesis
    unfolding handle_http_request_def Let_def n recv_stored [OF assms] prod.case
    by (simp only: of_nat_less_0_iff if_False)
qed

lemma strcmp_differ:
  assumes "a \<noteq> b"
  shows "\<exists>k. strcmp (a # as) (b # bs) = Some k \<and> k \<noteq> 0"
proof -
  have "(of_char a :: nat) \<noteq> of_char b" using assms by (simp only: of_char_eq_iff not_False_eq_True)
  then have "int (of_char a) - int (of_char b) \<noteq> 0" by linarith
  moreover have "strcmp (a # as) (b # bs) = Some (int (of_char a) - int (of_char b))"
    using assms by (simp only: strcmp.simps if_False)
  ultimately show ?thesis by blast
qed

lemma strcmp_token:
  assumes "NUL \<notin> set m" and "NUL \<notin> set s"
  shows "\<exists>k. strcmp (m @ NUL # rest) (lit s) = Some k \<and> (k = 0) = (m = s)"
  using assms
proof (induction m arbitrary: s)
  case Nil
  show ?case
  proof (cases s)
    case Nil
    then show ?thesis by (simp add: lit_def)
  next
    case (Cons y s')
    then have "NUL \<noteq> y" using Nil.prems by auto
    from strcmp_differ [OF this, of rest "s' @ [NUL]"] show ?thesis
      using Cons by (auto simp only: lit_def append.simps list.simps)
  qed
next
  case (Cons x m)
  show ?case
  proof (cases s)
    case Nil
    have "x \<noteq> NUL" using Cons.prems by auto
    from strcmp_differ [OF this, of "m @ NUL # rest" "[]"] show ?thesis
      using Nil by (auto simp only: lit_def append.simps list.simps)
  next
    case (Cons y s')
    show ?thesis
    proof (cases "x = y")
      case True
      have "x \<noteq> NUL" using Cons.prems by auto
      from Cons.IH [of s'] Cons.prems Cons
      obtain k where "strcmp (m @ NUL # rest) (lit s') = Some k" "(k = 0) = (m = s')"
        by auto
      then show ?thesis using True Cons \<open>x \<noteq> NUL\<close> by (simp add: lit_def)
    next
      case False
      from strcmp_differ [OF this, of "m @ NUL # rest" "s' @ [NUL]"] show ?thesis
        using Cons False by (auto simp only: lit_def append.simps list.simps)
    qed
  qed
qed

lemma spec_token_no_nul: "NUL \<notin> set r \<Longrightarrow> NUL \<notin> set (spec_token r)"
  unfolding spec_token_def by (meson set_takeWhileD set_dropWhileD)

lemma sscanf_request:
  assumes "c_str request = Some r"
    and "spec_token r \<noteq> []" and "length (spec_token r) \<le> 9"
    and "length (spec_token (spec_after_token r)) \<le> 106"
  shows "\<exists>n. sscanf request ''%s %s'' [(10, t0), (107, p0)] =
    Some (n, [spec_token r @ NUL # drop (length (spec_token r) + 1) t0,
              if spec_token (spec_after_token r) = [] then p0
              else spec_token (spec_after_token r) @ NUL # drop (length (spec_token (spec_after_token r)) + 1) p0])"
  unfolding sscanf_def assms(1) option.case sscanf_from_two
  using assms(2-4) by (simp add: Let_def spec_token_def spec_after_token_def)

lemma long_token_overruns:
  assumes "c_str request = Some r"
    and "9 < length (spec_token r) \<or> spec_token r \<noteq> [] \<and> 106 < length (spec_token (spec_after_token r))"
  shows "sscanf request ''%s %s'' [(10, t0), (107, p0)] = None"
  unfolding sscanf_def assms(1) option.case sscanf_from_two
  using assms(2) by (auto simp add: Let_def spec_token_def spec_after_token_def)

lemma long_token_faults:
  assumes "recv_result e = Some bs"
    and "c_str (take 65535 bs @ drop (length (take 65535 bs)) (request0 e)) = Some r"
    and "9 < length (spec_token r) \<or> spec_token r \<noteq> [] \<and> 106 < length (spec_token (spec_after_token r))"
  shows "handle_http_request e fd cache w = (Fault, w\<lparr>trace := trace w @ [Recv fd 65535]\<rparr>)"
  unfolding handle_http_request_dispatch [OF assms(1)] long_token_overruns [OF assms(2,3)]
  by (simp add: emit_def)

lemma takeWhile_replicate_append:
  "P x \<Longrightarrow> takeWhile P (replicate n x @ ys) = replicate n x @ takeWhile P ys"
  by (induction n) simp_all


lemma dispatch_tokens:
  assumes "recv_result e = Some bs"
    and "request = take 65535 bs @ drop (length (take 65535 bs)) (request0 e)"
    and "c_str request = Some r"
    and "spec_token r \<noteq> []" and "length (spec_token r) \<le> 9"
    and "length (spec_token (spec_after_token r)) \<le> 106"
    and "path = (if spec_token (spec_after_token r) = [] then path0 e
                 else spec_token (spec_after_token r) @ NUL # drop (length (spec_token (spec_after_token r)) + 1) (path0 e))"
  shows "handle_http_request e fd cache w =
      (if spec_token r = ''GET''
       then handle_get_request e fd cache path request (w\<lparr>trace := trace w @ [Recv fd 65535]\<rparr>)
       else if spec_token r = ''POST''
       then handle_post_request e fd cache path request (w\<lparr>trace := trace w @ [Recv fd 65535]\<rparr>)
       else resp_404 e fd (w\<lparr>trace := trace w @ [Recv fd 65535]\<rparr>))"
proof -
  define type_buf where "type_buf = spec_token r @ NUL # drop (length (spec_token r) + 1) (type0 e)"
  from sscanf_request [OF assms(3-6), of "type0 e" "path0 e"]
  obtain n where sc: "sscanf request ''%s %s'' [(10, type0 e), (107, path0 e)] = Some (n, [type_buf, path])"
    unfolding type_buf_def assms(7) by blast
  have nn: "NUL \<notin> set (spec_token r)"
    by (rule spec_token_no_nul) (rule c_str_no_nul [OF assms(3)])
  from strcmp_token [OF nn, of "''GET''" "drop (length (spec_token r) + 1) (type0 e)"]
  obtain k where k: "strcmp type_buf (lit ''GET'') = Some k" "(k = 0) = (spec_token r = ''GET'')"
    unfolding type_buf_def by auto
  from strcmp_token [OF nn, of "''POST''" "drop (length (spec_token r) + 1) (type0 e)"]
  obtain k' where k': "strcmp type_buf (lit ''POST'') = Some k'" "(k' = 0) = (spec_token r = ''POST'')"
    unfolding type_buf_def by auto
  have "handle_http_request e fd cache w =
      (if k = 0 then handle_get_request e fd cache path request (w\<lparr>trace := trace w @ [Recv fd 65535]\<rparr>)
       else if k' = 0 then handle_post_request e fd cache path request (w\<lparr>trace := trace w @ [Recv fd 65535]\<rparr>)
       else resp_404 e fd (w\<lparr>trace := trace w @ [Recv fd 65535]\<rparr>))"
    unfolding handle_http_request_dispatch [OF assms(1)] assms(2) [symmetric] sc
    by (simp add: emit_def k(1) k'(1))
  then show ?thesis unfolding k(2) k'(2) .
qed


lemma handle_post_request_resp:
  assumes "c_str request = Some r"
  shows "handle_post_request e fd cache path request w =
    resp_404 e fd (w\<lparr>trace := trace w @ [Stdout (''POST: '' @ r)]\<rparr>)"
  unfolding handle_post_request_def printf_post [OF assms] by simp


section \<open>Missing resource files\<close>

text \<open>
  C3. When the file loader finds no file, \<open>resp_404\<close> and \<open>resp_file\<close> end the process
  with \<open>exit(3)\<close>: all they do is ask for the file and write one line to \<open>stderr\<close>;
  nothing is sent on the connection and neither returns to its caller.
\<close>

theorem missing_file_is_fatal:
  "(file_load e ''./serverfiles/404.html'' = None \<longrightarrow>
      resp_404 e fd w =
        (Exit 3, w\<lparr>trace := trace w @
           [FileLoad ''./serverfiles/404.html'',
            Stderr ''cannot find system 404 file\<newline>'']\<rparr>)) \<and>
   (c_str request_path = Some p \<and> file_load e (take 4095 (SERVER_ROOT @ p)) = None \<longrightarrow>
      resp_file e fd cache request_path w =
        (Exit 3, w\<lparr>trace := trace w @
           [FileLoad (take 4095 (SERVER_ROOT @ p)),
            Stderr (''cannot find system '' @ p @ '' file\<newline>'')]\<rparr>))"
  using resp_404_missing resp_file_missing by blast

theorem missing_file_is_fatal_witness:
  "resp_404 (test_env (\<lambda>_. None) None) 4 test_world =
     (Exit 3, \<lparr>trace = [FileLoad ''./serverfiles/404.html'',
                         Stderr ''cannot find system 404 file\<newline>''], caches = []\<rparr>) \<and>
   resp_file (test_env (\<lambda>_. None) None) 4 0 (lit ''/index.html'') test_world =
     (Exit 3, \<lparr>trace = [FileLoad ''./serverroot/index.html'',
                         Stderr ''cannot find system /index.html file\<newline>''], caches = []\<rparr>)"
  using missing_file_is_fatal [of "test_env (\<lambda>_. None) None" 4 test_world
      "lit ''/index.html''" "''/index.html''" 0]
  by (simp add: test_env_def test_world_def c_str_def lit_def SERVER_ROOT_def)

section \<open>The layout of a response\<close>



section \<open>Receiving the request\<close>

text \<open>
  C6. \<open>handle_http_request\<close> calls \<open>recv\<close> once, for at most 65535 bytes: the call
  stores no more than that and leaves the last byte of the buffer alone. When \<open>recv\<close>
  fails, the handler writes the \<open>perror\<close> line and returns: nothing is sent, no file is
  asked for and no handler runs.
\<close>

theorem single_bounded_receive:
  "filter is_recv (trace (snd (handle_http_request e fd cache w))) =
     filter is_recv (trace w) @ [Recv fd 65535] \<and>
   fst (recv e 65535 buf) \<le> 65535 \<and>
   drop 65535 (snd (recv e 65535 buf)) = drop 65535 buf \<and>
   (recv_result e = None \<longrightarrow>
      handle_http_request e fd cache w =
        (Return (), w\<lparr>trace := trace w @ [Recv fd 65535, Perror ''recv'']\<rparr>))"
proof (intro conjI impI)
  show "filter is_recv (trace (snd (handle_http_request e fd cache w))) =
     filter is_recv (trace w) @ [Recv fd 65535]"
  proof (cases "recv_result e")
    case None
    show ?thesis by (simp add: handle_http_request_recv_failed [OF None])
  next
    case (Some bs)
    from handle_http_request_received [OF Some, of fd cache]
    obtain r evs where h: "list_all resp_event evs"
      "\<And>w :: 'a world. handle_http_request e fd cache w =
          (r, w\<lparr>trace := trace w @ Recv fd 65535 # evs\<rparr>)"
      by blast
    have "filter is_recv evs = []"
      using h(1) by (rule filter_none) (rule resp_event_not_recv)
    then show ?thesis by (simp add: h(2))
  qed
next
  show "fst (recv e 65535 buf) \<le> 65535"
    by (cases "recv_result e") (simp_all add: recv_def Let_def)
next
  show "drop 65535 (snd (recv e 65535 buf)) = drop 65535 buf"
    by (cases "recv_result e") (simp_all add: recv_def Let_def min_def)
next
  assume "recv_result e = None"
  then show "handle_http_request e fd cache w =
        (Return (), w\<lparr>trace := trace w @ [Recv fd 65535, Perror ''recv'']\<rparr>)"
    by (rule handle_http_request_recv_failed)
qed

theorem single_bounded_receive_witness:
  "handle_http_request (test_env test_files None) 4 0 test_world =
     (Return (), \<lparr>trace = [Recv 4 65535, Perror ''recv''], caches = []\<rparr>)"
  using single_bounded_receive [of "test_env test_files None" 4 0 test_world "[]"]
  by (simp add: test_env_def test_world_def)

section \<open>A failed accept\<close>

text \<open>
  C9. An iteration of the loop in which \<open>accept\<close> returns \<open>-1\<close> writes the \<open>perror\<close>
  line and goes on with the next \<open>accept\<close>: no connection is handled and the process does
  not exit. After any number of such iterations the server is still running.
\<close>

theorem failed_accept_continues:
  "(accept_result e = - 1 \<longrightarrow>
      accept_loop (e # es) listenfd cache w =
        accept_loop es listenfd cache (w\<lparr>trace := trace w @ [Accept listenfd, Perror ''accept'']\<rparr>)) \<and>
   ((\<forall>e \<in> set fs. accept_result e = - 1) \<longrightarrow>
      accept_loop fs listenfd cache w =
        (Running, w\<lparr>trace := trace w @ concat (map (\<lambda>_. [Accept listenfd, Perror ''accept'']) fs)\<rparr>))"
proof (intro conjI impI)
  assume "accept_result e = - 1"
  then show "accept_loop (e # es) listenfd cache w =
        accept_loop es listenfd cache (w\<lparr>trace := trace w @ [Accept listenfd, Perror ''accept'']\<rparr>)"
    by (simp add: Let_def emit_def)
next
  assume "\<forall>e \<in> set fs. accept_result e = - 1"
  then show "accept_loop fs listenfd cache w =
        (Running, w\<lparr>trace := trace w @ concat (map (\<lambda>_. [Accept listenfd, Perror ''accept'']) fs)\<rparr>)"
    by (induction fs arbitrary: w) (simp_all add: Let_def emit_def)
qed

theorem failed_accept_continues_witness:
  "accept_loop [(test_env test_files None)\<lparr>accept_result := - 1\<rparr>,
                (test_env test_files None)\<lparr>accept_result := - 1\<rparr>] 3 0 test_world =
     (Running, \<lparr>trace = [Accept 3, Perror ''accept'', Accept 3, Perror ''accept''], caches = []\<rparr>)"
  using failed_accept_continues [of "(test_env test_files None)\<lparr>accept_result := - 1\<rparr>"
      "[(test_env test_files None)\<lparr>accept_result := - 1\<rparr>]" 3 0 test_world
      "[(test_env test_files None)\<lparr>accept_result := - 1\<rparr>,
        (test_env test_files None)\<lparr>accept_result := - 1\<rparr>]"]
  by (simp add: test_env_def test_world_def emit_def Let_def)

section \<open>The cache\<close>

lemma handle_http_request_frame:
  "\<exists>r evs. \<forall>w :: 'c world. handle_http_request e fd cache w = (r, w\<lparr>trace := trace w @ evs\<rparr>)"
  using handle_http_request_local [of e fd cache] by blast

lemma resp_file_cache_arg: "resp_file e fd cache p w = resp_file e fd cache' p w"
  by (simp add: resp_file_def)

lemma handle_http_request_cache_arg:
  "handle_http_request e fd cache w = handle_http_request e fd cache' w"
proof -
  have g: "handle_get_request e fd cache path request w1 = handle_get_request e fd cache' path request w1"
    for path request and w1 :: "'a world"
    unfolding handle_get_request_def resp_file_cache_arg [of e fd cache _ _ cache'] ..
  have p: "handle_post_request e fd cache path request w1 = handle_post_request e fd cache' path request w1"
    for path request and w1 :: "'a world"
    unfolding handle_post_request_def ..
  show ?thesis unfolding handle_http_request_def g p ..
qed

lemma main_trace_caches:
  "\<exists>evs. list_all (\<lambda>ev. \<not> is_cache_create ev) evs \<and>
     snd (main b es) = \<lparr>trace = CacheCreate 10 0 # evs, caches = [new_cache b 10 0]\<rparr>"
proof (cases "listener_socket b PORT < 0")
  case True
  have "snd (main b es) = \<lparr>trace = CacheCreate 10 0 #
      [Listen PORT, Stderr ''webserver: fatal error getting listening socket\<newline>''],
      caches = [new_cache b 10 0]\<rparr>"
    using True by (simp add: main_def cache_create_def fprintf_stderr_def emit_def Let_def)
  moreover have "list_all (\<lambda>ev. \<not> is_cache_create ev)
     [Listen PORT, Stderr ''webserver: fatal error getting listening socket\<newline>'']"
    by simp
  ultimately show ?thesis by blast
next
  case False
  define w3 :: "'a world" where "w3 = \<lparr>trace = [CacheCreate 10 0, Listen PORT,
     Stdout ''webserver: waiting for connections on port 80...\<newline>''], caches = [new_cache b 10 0]\<rparr>"
  have m: "main b es = accept_loop es (listener_socket b PORT) 0 w3"
    using False
    by (simp add: main_def cache_create_def printf_def emit_def Let_def conv_def c_str_def
        lit_def PORT_def w3_def)
  from accept_loop_local [of es "listener_socket b PORT" 0 w3]
  obtain evs where evs: "list_all (\<lambda>ev. \<not> is_cache_create ev) evs"
    "snd (accept_loop es (listener_socket b PORT) 0 w3) = w3\<lparr>trace := trace w3 @ evs\<rparr>"
    by blast
  have "snd (main b es) = \<lparr>trace = CacheCreate 10 0 # (Listen PORT #
     Stdout ''webserver: waiting for connections on port 80...\<newline>'' # evs),
     caches = [new_cache b 10 0]\<rparr>"
    unfolding m evs(2) by (simp add: w3_def)
  moreover have "list_all (\<lambda>ev. \<not> is_cache_create ev) (Listen PORT #
     Stdout ''webserver: waiting for connections on port 80...\<newline>'' # evs)"
    using evs(1) by simp
  ultimately show ?thesis by blast
qed

text \<open>
  C8. \<open>main\<close> creates the cache once, with the arguments 10 and 0, and whatever
  connections follow, the heap holds that one cache as it was created. Handling a request
  leaves the caches as they are, and its outcome and its events are the same for any
  contents of the caches and any cache pointer.
\<close>

theorem cache_created_once_and_untouched:
  "caches (snd (main b es)) = [new_cache b 10 0] \<and>
   filter is_cache_create (trace (snd (main b es))) = [CacheCreate 10 0] \<and>
   caches (snd (handle_http_request e fd cache w)) = caches w \<and>
   fst (handle_http_request e fd cache' (w\<lparr>caches := cs\<rparr>)) = fst (handle_http_request e fd cache w) \<and>
   trace (snd (handle_http_request e fd cache' (w\<lparr>caches := cs\<rparr>))) =
     trace (snd (handle_http_request e fd cache w))"
proof -
  from main_trace_caches [of b es] obtain evs where
    m: "list_all (\<lambda>ev. \<not> is_cache_create ev) evs"
      "snd (main b es) = \<lparr>trace = CacheCreate 10 0 # evs, caches = [new_cache b 10 0]\<rparr>"
    by blast
  have "filter is_cache_create evs = []"
    using m(1) by (rule filter_none)
  then have 1: "caches (snd (main b es)) = [new_cache b 10 0]"
    and 2: "filter is_cache_create (trace (snd (main b es))) = [CacheCreate 10 0]"
    by (simp_all add: m(2))
  from handle_http_request_frame [of e fd cache] obtain r evs' where
    h: "\<And>w :: 'b world. handle_http_request e fd cache w = (r, w\<lparr>trace := trace w @ evs'\<rparr>)"
    by blast
  have 3: "caches (snd (handle_http_request e fd cache w)) = caches w"
    and 4: "fst (handle_http_request e fd cache' (w\<lparr>caches := cs\<rparr>)) = fst (handle_http_request e fd cache w)"
    and 5: "trace (snd (handle_http_request e fd cache' (w\<lparr>caches := cs\<rparr>))) =
     trace (snd (handle_http_request e fd cache w))"
    by (simp_all add: h handle_http_request_cache_arg [of e fd cache' _ cache])
  from 1 2 3 4 5 show ?thesis by blast
qed

section \<open>The routes of GET\<close>




section \<open>Dispatch on the method\<close>

text \<open>
  C2. As stated, for every request, the claim fails: a path of 107 characters and a
  method of 15 characters run past the arrays \<open>path\<close> and \<open>type\<close> and no response is
  sent, a request without a token is dispatched on what \<open>type\<close> held before, and without
  \<open>404.html\<close> the process exits. What holds is this: for a request received into a
  NUL-terminated buffer whose method is present and at most 9 characters and whose path
  is at most 106 characters, the method token alone decides. \<open>GET\<close> runs the GET handler
  on the extracted path; \<open>POST\<close> logs the request, and \<open>POST\<close> and every other method then
  answer with the 404 response, the same whatever the path and the rest of the request
  are, or end the process with status 3 when \<open>404.html\<close> is missing.
\<close>

theorem dispatch_by_method:
  assumes "recv_result e = Some bs"
    and "request = take 65535 bs @ drop (length (take 65535 bs)) (request0 e)"
    and "c_str request = Some r"
    and "spec_token r \<noteq> []" and "length (spec_token r) \<le> 9"
    and "length (spec_token (spec_after_token r)) \<le> 106"
    and "path = (if spec_token (spec_after_token r) = [] then path0 e
                 else spec_token (spec_after_token r) @ NUL # drop (length (spec_token (spec_after_token r)) + 1) (path0 e))"
    and "logged = (if spec_token r = ''POST'' then [Stdout (''POST: '' @ r)] else [])"
  shows "(spec_token r = ''GET'' \<longrightarrow>
            handle_http_request e fd cache w =
              handle_get_request e fd cache path request (w\<lparr>trace := trace w @ [Recv fd 65535]\<rparr>)) \<and>
         (spec_token r \<noteq> ''GET'' \<and> file_load e ''./serverfiles/404.html'' = None \<longrightarrow>
            handle_http_request e fd cache w =
              (Exit 3, w\<lparr>trace := trace w @ [Recv fd 65535] @ logged @
                 [FileLoad ''./serverfiles/404.html'', Stderr ''cannot find system 404 file\<newline>'']\<rparr>)) \<and>
         (spec_token r \<noteq> ''GET'' \<and> file_load e ''./serverfiles/404.html'' = Some filedata \<and>
          c_str (data filedata) = Some body \<and>
          c_str (mime_type_get e ''./serverfiles/404.html'') = Some type \<and>
          c_str (asctime_localtime e) = Some date \<and>
          resp = take 262143 (spec_layout ''HTTP/1.1 404 NOT FOUND'' date (size_f filedata) type body) \<longrightarrow>
            handle_http_request e fd cache w =
              (Return (), w\<lparr>trace := trace w @ [Recv fd 65535] @ logged @
                 [FileLoad ''./serverfiles/404.html'', Send fd resp] @
                 (if send_result e resp < 0 then [Perror ''send''] else []) @ [FileFree]\<rparr>))"
proof -
  note d = dispatch_tokens [OF assms(1-7), of fd cache w]
  define w2 where "w2 = w\<lparr>trace := trace w @ [Recv fd 65535] @ logged\<rparr>"
  have other: "handle_http_request e fd cache w = resp_404 e fd w2" if "spec_token r \<noteq> ''GET''"
  proof (cases "spec_token r = ''POST''")
    case True
    then show ?thesis
      unfolding d handle_post_request_resp [OF assms(3)] w2_def assms(8) by simp
  next
    case False
    then show ?thesis
      unfolding d w2_def assms(8) using that by simp
  qed
  show ?thesis
  proof (intro conjI impI)
    assume "spec_token r = ''GET''"
    then show "handle_http_request e fd cache w =
              handle_get_request e fd cache path request (w\<lparr>trace := trace w @ [Recv fd 65535]\<rparr>)"
      unfolding d by simp
  next
    assume a: "spec_token r \<noteq> ''GET'' \<and> file_load e ''./serverfiles/404.html'' = None"
    then have n: "file_load e ''./serverfiles/404.html'' = None" by simp
    show "handle_http_request e fd cache w =
              (Exit 3, w\<lparr>trace := trace w @ [Recv fd 65535] @ logged @
                 [FileLoad ''./serverfiles/404.html'', Stderr ''cannot find system 404 file\<newline>'']\<rparr>)"
      unfolding other [OF conjunct1 [OF a]] resp_404_missing [OF n] by (simp add: w2_def)
  next
    assume a: "spec_token r \<noteq> ''GET'' \<and> file_load e ''./serverfiles/404.html'' = Some filedata \<and>
          c_str (data filedata) = Some body \<and>
          c_str (mime_type_get e ''./serverfiles/404.html'') = Some type \<and>
          c_str (asctime_localtime e) = Some date \<and>
          resp = take 262143 (spec_layout ''HTTP/1.1 404 NOT FOUND'' date (size_f filedata) type body)"
    then have f: "file_load e ''./serverfiles/404.html'' = Some filedata"
      and b: "c_str (data filedata) = Some body"
      and t: "c_str (mime_type_get e ''./serverfiles/404.html'') = Some type"
      and dt: "c_str (asctime_localtime e) = Some date"
      and rs: "resp = take 262143 (spec_layout ''HTTP/1.1 404 NOT FOUND'' date (size_f filedata) type body)"
      by simp_all
    show "handle_http_request e fd cache w =
              (Return (), w\<lparr>trace := trace w @ [Recv fd 65535] @ logged @
                 [FileLoad ''./serverfiles/404.html'', Send fd resp] @
                 (if send_result e resp < 0 then [Perror ''send''] else []) @ [FileFree]\<rparr>)"
      unfolding other [OF conjunct1 [OF a]] resp_404_sends [OF f b t dt] rs
      by (simp add: w2_def Let_def)
  qed
qed

theorem dispatch_by_method_witness:
  "handle_http_request (test_env test_files (Some ''POST /save HTTP/1.1'')) 4 0 test_world =
     (Return (),
      \<lparr>trace = [Recv 4 65535, Stdout ''POST: POST /save HTTP/1.1'',
         FileLoad ''./serverfiles/404.html'',
         Send 4 ''HTTP/1.1 404 NOT FOUND\<newline>Date: Fri Oct 30 01:05:00 2026\<newline>Connection: close\<newline>Content-Length: 4\<newline>Content-Type: text/html\<newline>\<newline>gone'',
         FileFree], caches = []\<rparr>) \<and>
   handle_http_request (test_env test_files (Some ''DELETE /save HTTP/1.1'')) 4 0 test_world =
     (Return (),
      \<lparr>trace = [Recv 4 65535, FileLoad ''./serverfiles/404.html'',
         Send 4 ''HTTP/1.1 404 NOT FOUND\<newline>Date: Fri Oct 30 01:05:00 2026\<newline>Connection: close\<newline>Content-Length: 4\<newline>Content-Type: text/html\<newline>\<newline>gone'',
         FileFree], caches = []\<rparr>) \<and>
   handle_http_request (test_env no_files (Some ''DELETE /save HTTP/1.1'')) 4 0 test_world =
     (Exit 3,
      \<lparr>trace = [Recv 4 65535, FileLoad ''./serverfiles/404.html'',
         Stderr ''cannot find system 404 file\<newline>''], caches = []\<rparr>) \<and>
   handle_http_request (test_env test_files (Some ''GET /d20 HTTP/1.1'')) 4 0 test_world =
     handle_get_request (test_env test_files (Some ''GET /d20 HTTP/1.1'')) 4 0
       (''/d20'' @ NUL # replicate 102 NUL) (''GET /d20 HTTP/1.1'' @ replicate 65519 NUL)
       \<lparr>trace = [Recv 4 65535], caches = []\<rparr>"
  using dispatch_by_method [where e = "test_env test_files (Some ''POST /save HTTP/1.1'')" and bs = "''POST /save HTTP/1.1''"
      and request = "''POST /save HTTP/1.1'' @ replicate 65517 NUL" and r = "''POST /save HTTP/1.1''"
      and path = "''/save'' @ NUL # replicate 101 NUL" and logged = "[Stdout ''POST: POST /save HTTP/1.1'']"
      and fd = 4 and cache = 0 and w = test_world
      and filedata = "\<lparr>data = lit ''gone'', size_f = 4\<rparr>" and body = "''gone''" and type = "''text/html''"
      and date = "''Fri Oct 30 01:05:00 2026\<newline>''" and resp = "''HTTP/1.1 404 NOT FOUND\<newline>Date: Fri Oct 30 01:05:00 2026\<newline>Connection: close\<newline>Content-Length: 4\<newline>Content-Type: text/html\<newline>\<newline>gone''"]
    dispatch_by_method [where e = "test_env test_files (Some ''DELETE /save HTTP/1.1'')" and bs = "''DELETE /save HTTP/1.1''"
      and request = "''DELETE /save HTTP/1.1'' @ replicate 65515 NUL" and r = "''DELETE /save HTTP/1.1''"
      and path = "''/save'' @ NUL # replicate 101 NUL" and logged = "[]"
      and fd = 4 and cache = 0 and w = test_world
      and filedata = "\<lparr>data = lit ''gone'', size_f = 4\<rparr>" and body = "''gone''" and type = "''text/html''"
      and date = "''Fri Oct 30 01:05:00 2026\<newline>''" and resp = "''HTTP/1.1 404 NOT FOUND\<newline>Date: Fri Oct 30 01:05:00 2026\<newline>Connection: close\<newline>Content-Length: 4\<newline>Content-Type: text/html\<newline>\<newline>gone''"]
    dispatch_by_method [where e = "test_env no_files (Some ''DELETE /save HTTP/1.1'')" and bs = "''DELETE /save HTTP/1.1''"
      and request = "''DELETE /save HTTP/1.1'' @ replicate 65515 NUL" and r = "''DELETE /save HTTP/1.1''"
      and path = "''/save'' @ NUL # replicate 101 NUL" and logged = "[]"
      and fd = 4 and cache = 0 and w = test_world
      and filedata = "\<lparr>data = lit ''gone'', size_f = 4\<rparr>" and body = "''gone''" and type = "''text/html''"
      and date = "''Fri Oct 30 01:05:00 2026\<newline>''" and resp = "''HTTP/1.1 404 NOT FOUND\<newline>Date: Fri Oct 30 01:05:00 2026\<newline>Connection: close\<newline>Content-Length: 4\<newline>Content-Type: text/html\<newline>\<newline>gone''"]
    dispatch_by_method [where e = "test_env test_files (Some ''GET /d20 HTTP/1.1'')" and bs = "''GET /d20 HTTP/1.1''"
      and request = "''GET /d20 HTTP/1.1'' @ replicate 65519 NUL" and r = "''GET /d20 HTTP/1.1''"
      and path = "''/d20'' @ NUL # replicate 102 NUL" and logged = "[]"
      and fd = 4 and cache = 0 and w = test_world
      and filedata = "\<lparr>data = lit ''gone'', size_f = 4\<rparr>" and body = "''gone''" and type = "''text/html''"
      and date = "''Fri Oct 30 01:05:00 2026\<newline>''" and resp = "''HTTP/1.1 404 NOT FOUND\<newline>Date: Fri Oct 30 01:05:00 2026\<newline>Connection: close\<newline>Content-Length: 4\<newline>Content-Type: text/html\<newline>\<newline>gone''"]
  by (simp add: test_env_def test_files_def no_files_def test_world_def c_str_def lit_def isspace_def
      spec_token_def spec_after_token_def spec_layout_def dec_def digits.simps)

theorem dispatch_by_method_counterexample:
  "handle_http_request (test_env test_files (Some (''POST '' @ long_path @ '' HTTP/1.1''))) 4 0 test_world =
     (Fault, \<lparr>trace = [Recv 4 65535], caches = []\<rparr>) \<and>
   handle_http_request (test_env test_files (Some ''VERSION-CONTROL /doc HTTP/1.1'')) 4 0 test_world =
     (Fault, \<lparr>trace = [Recv 4 65535], caches = []\<rparr>) \<and>
   handle_http_request blank_env 4 0 test_world =
     (Return (),
      \<lparr>trace = [Recv 4 65535, Stdout ''GET: /profile/x'', FileLoad ''./serverroot/profile.html'',
         Send 4 ''HTTP/1.1 200 OK\<newline>Date: Fri Oct 30 01:05:00 2026\<newline>Connection: close\<newline>Content-Length: 9\<newline>Content-Type: text/html\<newline>\<newline><p>me</p>'',
         FileFree], caches = []\<rparr>) \<and>
   handle_http_request (test_env no_files (Some ''POST /save HTTP/1.1'')) 4 0 test_world =
     (Exit 3,
      \<lparr>trace = [Recv 4 65535, Stdout ''POST: POST /save HTTP/1.1'', FileLoad ''./serverfiles/404.html'',
         Stderr ''cannot find system 404 file\<newline>''], caches = []\<rparr>) \<and>
   handle_http_request (test_env bare_files (Some ''POST /save HTTP/1.1'')) 4 0 test_world =
     (Fault,
      \<lparr>trace = [Recv 4 65535, Stdout ''POST: POST /save HTTP/1.1'', FileLoad ''./serverfiles/404.html''],
         caches = []\<rparr>)"
  by (simp add: run_simps long_path_def no_files_def bare_files_def blank_env_def
      takeWhile_replicate_append)

section \<open>A receive of zero bytes\<close>

text \<open>
  C10. When \<open>recv\<close> returns 0 it has stored nothing, and \<open>handle_http_request\<close> goes
  on: it extracts the tokens from the array \<open>request\<close> as it was before the call and
  dispatches on them. The handler takes the path that logs and returns exactly when
  \<open>recv\<close> returns a negative value.
\<close>

theorem zero_bytes_received_is_dispatched:
  "(recv_result e = Some [] \<longrightarrow>
      recv e 65535 (request0 e) = (0, request0 e) \<and>
      handle_http_request e fd cache w =
        (case sscanf (request0 e) ''%s %s'' [(10, type0 e), (107, path0 e)] of
           Some (_, [type, path]) \<Rightarrow>
             (case strcmp type (lit ''GET'') of
                None \<Rightarrow> (Fault, emit (Recv fd 65535) w)
              | Some c \<Rightarrow>
                 if c = 0 then handle_get_request e fd cache path (request0 e) (emit (Recv fd 65535) w)
                 else
                   (case strcmp type (lit ''POST'') of
                      None \<Rightarrow> (Fault, emit (Recv fd 65535) w)
                    | Some c' \<Rightarrow>
                       if c' = 0 then handle_post_request e fd cache path (request0 e) (emit (Recv fd 65535) w)
                       else resp_404 e fd (emit (Recv fd 65535) w)))
         | _ \<Rightarrow> (Fault, emit (Recv fd 65535) w))) \<and>
   (fst (recv e 65535 (request0 e)) < 0) = (recv_result e = None) \<and>
   (handle_http_request e fd cache w =
      (Return (), w\<lparr>trace := trace w @ [Recv fd 65535, Perror ''recv'']\<rparr>)) = (recv_result e = None)"
proof (intro conjI impI)
  assume z: "recv_result e = Some []"
  show "recv e 65535 (request0 e) = (0, request0 e)"
    by (simp add: recv_stored [OF z])
  show "handle_http_request e fd cache w =
        (case sscanf (request0 e) ''%s %s'' [(10, type0 e), (107, path0 e)] of
           Some (_, [type, path]) \<Rightarrow>
             (case strcmp type (lit ''GET'') of
                None \<Rightarrow> (Fault, emit (Recv fd 65535) w)
              | Some c \<Rightarrow>
                 if c = 0 then handle_get_request e fd cache path (request0 e) (emit (Recv fd 65535) w)
                 else
                   (case strcmp type (lit ''POST'') of
                      None \<Rightarrow> (Fault, emit (Recv fd 65535) w)
                    | Some c' \<Rightarrow>
                       if c' = 0 then handle_post_request e fd cache path (request0 e) (emit (Recv fd 65535) w)
                       else resp_404 e fd (emit (Recv fd 65535) w)))
         | _ \<Rightarrow> (Fault, emit (Recv fd 65535) w))"
  proof -
    have e0: "take 65535 ([]::string) @ drop (length (take 65535 ([]::string))) (request0 e) = request0 e"
      by simp
    show ?thesis by (rule handle_http_request_dispatch [OF z, of fd cache w, unfolded e0])
  qed
next
  show "(fst (recv e 65535 (request0 e)) < 0) = (recv_result e = None)"
    by (cases "recv_result e") (simp_all add: recv_def Let_def)
next
  show "(handle_http_request e fd cache w =
      (Return (), w\<lparr>trace := trace w @ [Recv fd 65535, Perror ''recv'']\<rparr>)) = (recv_result e = None)"
  proof (cases "recv_result e")
    case None
    then show ?thesis by (simp add: handle_http_request_recv_failed)
  next
    case (Some bs)
    from handle_http_request_received [OF Some, of fd cache]
    obtain r evs where h: "list_all resp_event evs"
      "\<And>w :: 'a world. handle_http_request e fd cache w =
          (r, w\<lparr>trace := trace w @ Recv fd 65535 # evs\<rparr>)"
      by blast
    have "evs \<noteq> [Perror ''recv'']" using h(1) by auto
    moreover have "evs = [Perror ''recv'']"
      if "w\<lparr>trace := trace w @ Recv fd 65535 # evs\<rparr> =
          w\<lparr>trace := trace w @ [Recv fd 65535, Perror ''recv'']\<rparr>"
    proof -
      from that have "trace (w\<lparr>trace := trace w @ Recv fd 65535 # evs\<rparr>) =
          trace (w\<lparr>trace := trace w @ [Recv fd 65535, Perror ''recv'']\<rparr>)"
        by (rule arg_cong)
      then show ?thesis by simp
    qed
    ultimately show ?thesis using Some by (auto simp: h(2))
  qed
qed

theorem zero_bytes_received_is_dispatched_witness:
  "recv_result stale_env = Some [] \<and>
   handle_http_request stale_env 4 0 test_world =
     (Return (),
      \<lparr>trace = [Recv 4 65535, Stdout ''GET: /'', FileLoad ''./serverroot/index.html'',
         Send 4 ''HTTP/1.1 200 OK\<newline>Date: Fri Oct 30 01:05:00 2026\<newline>Connection: close\<newline>Content-Length: 11\<newline>Content-Type: text/html\<newline>\<newline><h1>hi</h1>'',
         FileFree], caches = []\<rparr>)"
  using zero_bytes_received_is_dispatched [of stale_env 4 0 test_world]
  by (simp add: run_simps stale_env_def)

section \<open>The bounds of the extracted tokens\<close>

text \<open>
  C7. The claim is that the method is stored within the 10 bytes of \<open>type\<close> and the
  path within the 107 bytes of \<open>path\<close> whatever the request holds. For the request
  \<open>AAAAAAAAAA / HTTP/1.1\<close> the conversion \<open>%s\<close> stores the ten characters of the method
  and a terminator: the extraction fits an array of 11 bytes and runs past the end of
  \<open>type\<close>, so the behaviour of \<open>handle_http_request\<close> is undefined. The same happens
  for every method longer than 9 and every path longer than 106 characters
  (\<open>long_token_faults\<close>).
\<close>

theorem method_token_overruns_type:
  "sscanf (''AAAAAAAAAA / HTTP/1.1'' @ replicate 65515 NUL) ''%s %s''
     [(10, replicate 10 NUL), (107, replicate 107 NUL)] = None \<and>
   sscanf (''AAAAAAAAAA / HTTP/1.1'' @ replicate 65515 NUL) ''%s %s''
     [(11, replicate 11 NUL), (107, replicate 107 NUL)] =
     Some (2, [''AAAAAAAAAA'' @ [NUL], ''/'' @ NUL # replicate 105 NUL]) \<and>
   handle_http_request (test_env test_files (Some ''AAAAAAAAAA / HTTP/1.1'')) 4 0 test_world =
     (Fault, \<lparr>trace = [Recv 4 65535], caches = []\<rparr>)"
  by (simp add: run_simps)

section \<open>Content-Length and the bytes sent\<close>

text \<open>
  C4. The claim is that the value of \<open>Content-Length\<close> is the number of body bytes
  sent, also for a body that holds NUL bytes. For \<open>GET /\<close> and an \<open>index.html\<close> of the
  three bytes \<open>a\<close>, NUL, \<open>b\<close> the header says 3 and one byte of body follows the empty
  line: \<open>%s\<close> stops at the NUL.
\<close>

theorem content_length_counts_unsent_bytes:
  "handle_http_request (test_env nul_files (Some ''GET / HTTP/1.1'')) 4 0 test_world =
     (Return (),
      \<lparr>trace = [Recv 4 65535, Stdout ''GET: /'', FileLoad ''./serverroot/index.html'',
         Send 4 ''HTTP/1.1 200 OK\<newline>Date: Fri Oct 30 01:05:00 2026\<newline>Connection: close\<newline>Content-Length: 3\<newline>Content-Type: text/html\<newline>\<newline>a'',
         FileFree], caches = []\<rparr>)"
  by (simp add: run_simps nul_files_def)

end
